theory Spec2Isabelle
  imports Main "HOL-Library.Word" "HOL-Library.AList"
begin

section \<open>The Indy issuer: values, documents and exceptions\<close>

text \<open>
  The development embeds \<^verbatim>\<open>aries_cloudagent/issuer/indy.py\<close>, the class
  \<^verbatim>\<open>IndyIssuer\<close>. Its methods are coroutines that call the indy-sdk
  (\<^verbatim>\<open>indy.anoncreds\<close>, \<^verbatim>\<open>indy.blob_storage\<close>) one call after the other; here
  each method is a function from the state of the world before the call to a result and
  the state after it. A raised exception is the left summand of the result.
\<close>

subsection \<open>Python scalars and \<^verbatim>\<open>str()\<close>\<close>

text \<open>
  An attribute value, or a schema sequence number, is a Python scalar. Strings are lists
  of characters, a character standing for the code point of the same number.
\<close>

datatype pyval = PNone | PBool bool | PInt int | PStr string

definition digit_char :: "nat \<Rightarrow> char" where
  "digit_char d = ''0123456789'' ! (d mod 10)"

fun str_nat :: "nat \<Rightarrow> string" where
  "str_nat n = (if n < 10 then [digit_char n] else str_nat (n div 10) @ [digit_char (n mod 10)])"

declare str_nat.simps [simp del]

definition str_int :: "int \<Rightarrow> string" where
  "str_int i = (if i < 0 then CHR ''-'' # str_nat (nat (- i)) else str_nat (nat i))"

fun py_str :: "pyval \<Rightarrow> string" where
  "py_str PNone = ''None''"
| "py_str (PBool b) = (if b then ''True'' else ''False'')"
| "py_str (PInt i) = str_int i"
| "py_str (PStr s) = s"

text \<open>
  \<^verbatim>\<open>x or default\<close> on an optional string: \<^verbatim>\<open>None\<close> and the empty string are
  both falsy.
\<close>

definition py_or :: "string option \<Rightarrow> string \<Rightarrow> string" where
  "py_or x dflt = (case x of None \<Rightarrow> dflt | Some s \<Rightarrow> if s = [] then dflt else s)"

subsection \<open>JSON documents\<close>

datatype json =
    JNull
  | JBool bool
  | JInt int
  | JStr string
  | JArr "json list"
  | JObj "(string \<times> json) list"

subsection \<open>Exceptions\<close>

text \<open>
  The codes of \<^verbatim>\<open>indy.error.ErrorCode\<close> that the issuer looks at, and all the
  others by number. The indy-sdk raises \<^verbatim>\<open>IndyError\<close> with a code; its subclass
  \<^verbatim>\<open>AnoncredsRevocationRegistryFullError\<close> is the class of the code of that name.
\<close>

datatype error_code =
    CommonInvalidStructure
  | WalletItemNotFound
  | AnoncredsRevocationRegistryFullError
  | OtherErrorCode nat

text \<open>
  An exception of the issuer carries its message, its \<^verbatim>\<open>__cause__\<close> (set by
  \<^verbatim>\<open>raise ... from\<close>) and its \<^verbatim>\<open>__context__\<close> (set whenever it is raised while
  another exception is handled). \<^verbatim>\<open>IssuerRevocationRegistryFullError\<close> is a subclass
  of \<^verbatim>\<open>IssuerError\<close>.
\<close>

datatype exn =
    KeyError string
  | ValueError string
  | IndyError error_code
  | IssuerError string "exn option" "exn option"
  | IssuerRevocationRegistryFullError string "exn option" "exn option"

definition new_IssuerError :: "string \<Rightarrow> exn" where
  "new_IssuerError m = IssuerError m None None"

definition new_IssuerRevocationRegistryFullError :: "string \<Rightarrow> exn" where
  "new_IssuerRevocationRegistryFullError m = IssuerRevocationRegistryFullError m None None"

fun is_IssuerError :: "exn \<Rightarrow> bool" where
  "is_IssuerError (IssuerError m c x) = True"
| "is_IssuerError (IssuerRevocationRegistryFullError m c x) = True"
| "is_IssuerError e = False"

fun cause :: "exn \<Rightarrow> exn option" where
  "cause (IssuerError m c x) = c"
| "cause (IssuerRevocationRegistryFullError m c x) = c"
| "cause e = None"

text \<open>\<^verbatim>\<open>raise e from orig\<close>: cause and context are both the original exception.\<close>

fun raise_from :: "exn \<Rightarrow> exn \<Rightarrow> exn" where
  "raise_from (IssuerError m c x) orig = IssuerError m (Some orig) (Some orig)"
| "raise_from (IssuerRevocationRegistryFullError m c x) orig =
     IssuerRevocationRegistryFullError m (Some orig) (Some orig)"
| "raise_from e orig = e"

text \<open>\<^verbatim>\<open>raise e\<close> inside an \<^verbatim>\<open>except\<close> block: only the context is set.\<close>

fun raise_handling :: "exn \<Rightarrow> exn \<Rightarrow> exn" where
  "raise_handling (IssuerError m c x) orig = IssuerError m c (Some orig)"
| "raise_handling (IssuerRevocationRegistryFullError m c x) orig =
     IssuerRevocationRegistryFullError m c (Some orig)"
| "raise_handling e orig = e"

section \<open>The collaborators\<close>

subsection \<open>What the module imports\<close>

text \<open>
  The constants of \<^verbatim>\<open>.base\<close>, the encoder of \<^verbatim>\<open>..messaging.util\<close>, the text that
  \<^verbatim>\<open>IndyErrorHandler.wrap_error\<close> puts into the exception it builds, and the
  \<^verbatim>\<open>json\<close> module are not part of the file; the issuer is parametric in them.
\<close>

record deps =
  DEFAULT_CRED_DEF_TAG :: string
  DEFAULT_ISSUANCE_TYPE :: string
  DEFAULT_SIGNATURE_TYPE :: string
  util_encode :: "pyval \<Rightarrow> json"
  error_text :: "string \<Rightarrow> exn \<Rightarrow> string"
  json_dumps :: "json \<Rightarrow> string"
  json_loads :: "string \<Rightarrow> exn + json"

subsection \<open>The engine, the wallet and the tails store\<close>

text \<open>
  The primitives of the indy-sdk act on a state \<open>'e\<close> of their own (the wallet, the
  accumulators, the tails files). Each one either fails with an error code or returns
  its documents as text.
\<close>

type_synonym ('e, 'a) prim = "'e \<Rightarrow> (error_code + 'a) \<times> 'e"

record 'e engine =
  issuer_create_schema :: "string \<Rightarrow> string \<Rightarrow> string \<Rightarrow> string \<Rightarrow> ('e, string \<times> string) prim"
  issuer_create_and_store_credential_def ::
    "int \<Rightarrow> string \<Rightarrow> string \<Rightarrow> string \<Rightarrow> string \<Rightarrow> string \<Rightarrow> ('e, string \<times> string) prim"
  issuer_create_credential_offer :: "int \<Rightarrow> string \<Rightarrow> ('e, string) prim"
  issuer_create_credential ::
    "int \<Rightarrow> string \<Rightarrow> string \<Rightarrow> string \<Rightarrow> string option \<Rightarrow> int option
       \<Rightarrow> ('e, string \<times> string option \<times> string option) prim"
  issuer_revoke_credential :: "int \<Rightarrow> int \<Rightarrow> string \<Rightarrow> string \<Rightarrow> ('e, string) prim"
  issuer_create_and_store_revoc_reg ::
    "int \<Rightarrow> string \<Rightarrow> string \<Rightarrow> string \<Rightarrow> string \<Rightarrow> string \<Rightarrow> int
       \<Rightarrow> ('e, string \<times> string \<times> string) prim"
  open_writer :: "string \<Rightarrow> string \<Rightarrow> ('e, int) prim"

text \<open>The calls that reach the collaborators, with their arguments, in order.\<close>

datatype call =
    IssuerCreateSchema string string string string
  | IssuerCreateAndStoreCredentialDef int string string string string string
  | IssuerCreateCredentialOffer int string
  | IssuerCreateCredential int string string string "string option" "int option"
  | IssuerRevokeCredential int int string string
  | IssuerCreateAndStoreRevocReg int string string string string string int
  | BlobStorageOpenWriter string string

record 'e world =
  engine_state :: 'e
  calls :: "call list"
  logged :: "string list"

type_synonym ('e, 'a) eff = "'e world \<Rightarrow> (exn + 'a) \<times> 'e world"

text \<open>
  \<^verbatim>\<open>await\<close> of one primitive: the call is recorded, the primitive runs on the engine's
  state, and a failure code surfaces as the \<^verbatim>\<open>IndyError\<close> of that code.
\<close>

definition invoke :: "call \<Rightarrow> ('e, 'a) prim \<Rightarrow> ('e, 'a) eff" where
  "invoke c f w =
     (case f (engine_state w) of
        (r, s') \<Rightarrow>
          (case r of Inl code \<Rightarrow> Inl (IndyError code) | Inr v \<Rightarrow> Inr v,
           w\<lparr>engine_state := s', calls := calls w @ [c]\<rparr>))"

subsection \<open>The error handler\<close>

text \<open>
  Modelled from the spec: \<^verbatim>\<open>IndyErrorHandler.wrap_error\<close> of \<^verbatim>\<open>..indy.error\<close>,
  which is not in the file. It "wraps" a failure "into the generic IssuerError": it
  returns a new exception of the class it is given. The text of the new exception is
  the parameter \<open>error_text\<close>.
\<close>

definition wrap_error :: "deps \<Rightarrow> exn \<Rightarrow> string \<Rightarrow> (string \<Rightarrow> exn) \<Rightarrow> exn" where
  "wrap_error d err message error_cls = error_cls (error_text d message err)"

text \<open>
  Modelled from the spec: the context manager \<^verbatim>\<open>IndyErrorHandler(message, error_cls)\<close>
  of \<^verbatim>\<open>..indy.error\<close>, which is not in the file. It is the "translation point" that
  "wraps every unrecognized failure into the generic IssuerError, always preserving the
  original failure as the cause": an \<^verbatim>\<open>IndyError\<close> leaving the block is replaced by
  the wrapped exception raised from it; anything else passes.
\<close>

fun handler_exit :: "deps \<Rightarrow> string \<Rightarrow> (string \<Rightarrow> exn) \<Rightarrow> exn \<Rightarrow> exn" where
  "handler_exit d message error_cls (IndyError code) =
     raise_from (wrap_error d (IndyError code) message error_cls) (IndyError code)"
| "handler_exit d message error_cls e = e"

text \<open>
  Modelled from the spec: the \<^verbatim>\<open>with IndyErrorHandler(message, error_cls)\<close> block
  around a computation, as described above: the exception that leaves the body goes
  through the handler, a result passes.
\<close>

definition IndyErrorHandler :: "deps \<Rightarrow> string \<Rightarrow> (string \<Rightarrow> exn) \<Rightarrow> ('e, 'a) eff \<Rightarrow> ('e, 'a) eff" where
  "IndyErrorHandler d message error_cls body w =
     (case body w of
        (Inl e, w') \<Rightarrow> (Inl (handler_exit d message error_cls e), w')
      | (Inr v, w') \<Rightarrow> (Inr v, w'))"

section \<open>The issuer\<close>

record issuer =
  wallet_handle :: int

text \<open>
  A schema is a dictionary; the issuer reads \<^verbatim>\<open>attrNames\<close> and \<^verbatim>\<open>seqNo\<close>. The
  sequence number is assigned by the ledger and absent before. The record holds these two
  entries with their types, the other entries of the document as they are, and the order
  of the dictionary's keys, which \<^verbatim>\<open>json.dumps\<close> follows.
\<close>

record schema =
  attrNames :: "string list"
  seqNo :: "pyval option"
  other_entries :: "(string \<times> json) list"
  key_order :: "string list"

fun json_of_pyval :: "pyval \<Rightarrow> json" where
  "json_of_pyval PNone = JNull"
| "json_of_pyval (PBool b) = JBool b"
| "json_of_pyval (PInt i) = JInt i"
| "json_of_pyval (PStr s) = JStr s"

text \<open>The entries of the dictionary, one for each key.\<close>

definition schema_entries :: "schema \<Rightarrow> (string \<times> json) list" where
  "schema_entries s =
     AList.clearjunk
       ((''attrNames'', JArr (map JStr (attrNames s)))
        # (case seqNo s of None \<Rightarrow> [] | Some n \<Rightarrow> [(''seqNo'', json_of_pyval n)])
        @ other_entries s)"

text \<open>
  The items of the dictionary in the order of its keys, as \<^verbatim>\<open>json.dumps(schema)\<close>
  writes them. A key that \<open>key_order\<close> does not list comes after those it lists.
\<close>

definition schema_items :: "schema \<Rightarrow> (string \<times> json) list" where
  "schema_items s =
     (let entries = schema_entries s;
          listed = rev (remdups (rev (key_order s)))
      in List.map_filter (\<lambda>k. map_option (Pair k) (map_of entries k)) listed
         @ filter (\<lambda>(k, v). k \<notin> set (key_order s)) entries)"

subsection \<open>Identifiers\<close>

definition make_schema_id :: "string \<Rightarrow> string \<Rightarrow> string \<Rightarrow> string" where
  "make_schema_id origin_did schema_name schema_version =
     origin_did @ '':2:'' @ schema_name @ '':'' @ schema_version"

definition make_credential_definition_id ::
  "deps \<Rightarrow> string \<Rightarrow> schema \<Rightarrow> string option \<Rightarrow> string option \<Rightarrow> exn + string" where
  "make_credential_definition_id d origin_did sch signature_type tag =
     (let signature_type' = py_or signature_type (DEFAULT_SIGNATURE_TYPE d);
          tag' = py_or tag (DEFAULT_CRED_DEF_TAG d)
      in case seqNo sch of
           None \<Rightarrow> Inl (KeyError ''seqNo'')
         | Some n \<Rightarrow>
             Inr (origin_did @ '':3:'' @ signature_type' @ '':'' @ py_str n @ '':'' @ tag'))"

subsection \<open>Schemas, credential definitions and offers\<close>

definition create_and_store_schema ::
  "deps \<Rightarrow> 'e engine \<Rightarrow> string \<Rightarrow> string \<Rightarrow> string \<Rightarrow> string list \<Rightarrow> ('e, string \<times> string) eff" where
  "create_and_store_schema d eng origin_did schema_name schema_version attribute_names =
     IndyErrorHandler d ''Error when creating schema'' new_IssuerError
       (let names_json = json_dumps d (JArr (map JStr attribute_names))
        in invoke (IssuerCreateSchema origin_did schema_name schema_version names_json)
             (issuer_create_schema eng origin_did schema_name schema_version names_json))"

text \<open>
  The \<^verbatim>\<open>except IndyError as error\<close> clause of the existence probe: the two
  recognised codes mean that the wallet has no such credential definition.
\<close>

fun in_wallet_except :: "deps \<Rightarrow> exn \<Rightarrow> exn + bool" where
  "in_wallet_except d (IndyError code) =
     (if code \<notin> {CommonInvalidStructure, WalletItemNotFound}
      then Inl (raise_from
                  (wrap_error d (IndyError code)
                     ''Error when checking wallet for credential definition'' new_IssuerError)
                  (IndyError code))
      else Inr False)"
| "in_wallet_except d e = Inl e"

definition credential_definition_in_wallet ::
  "deps \<Rightarrow> 'e engine \<Rightarrow> issuer \<Rightarrow> string \<Rightarrow> ('e, bool) eff" where
  "credential_definition_in_wallet d eng self credential_definition_id w =
     (case invoke (IssuerCreateCredentialOffer (wallet_handle self) credential_definition_id)
             (issuer_create_credential_offer eng (wallet_handle self) credential_definition_id) w of
        (Inr offer, w') \<Rightarrow> (Inr True, w')
      | (Inl e, w') \<Rightarrow> (in_wallet_except d e, w'))"

definition create_and_store_credential_definition ::
  "deps \<Rightarrow> 'e engine \<Rightarrow> issuer \<Rightarrow> string \<Rightarrow> schema \<Rightarrow> string option \<Rightarrow> string option \<Rightarrow> bool
     \<Rightarrow> ('e, string \<times> string) eff" where
  "create_and_store_credential_definition d eng self origin_did sch signature_type tag
       support_revocation =
     IndyErrorHandler d ''Error when creating credential definition'' new_IssuerError
       (let schema_json = json_dumps d (JObj (schema_items sch));
            tag' = py_or tag (DEFAULT_CRED_DEF_TAG d);
            signature_type' = py_or signature_type (DEFAULT_SIGNATURE_TYPE d);
            config = json_dumps d (JObj [(''support_revocation'', JBool support_revocation)])
        in invoke
             (IssuerCreateAndStoreCredentialDef (wallet_handle self) origin_did schema_json
                tag' signature_type' config)
             (issuer_create_and_store_credential_def eng (wallet_handle self) origin_did
                schema_json tag' signature_type' config))"

definition create_credential_offer :: "deps \<Rightarrow> 'e engine \<Rightarrow> issuer \<Rightarrow> string \<Rightarrow> ('e, json) eff" where
  "create_credential_offer d eng self credential_definition_id w =
     (case IndyErrorHandler d ''Exception when creating credential offer'' new_IssuerError
             (invoke (IssuerCreateCredentialOffer (wallet_handle self) credential_definition_id)
                (issuer_create_credential_offer eng (wallet_handle self) credential_definition_id)) w of
        (Inl e, w') \<Rightarrow> (Inl e, w')
      | (Inr credential_offer_json, w') \<Rightarrow> (json_loads d credential_offer_json, w'))"

subsection \<open>Issuance\<close>

text \<open>
  The loop over the schema's attribute names. \<^verbatim>\<open>encoded_values\<close> is a dictionary:
  assigning to a key that is there already replaces its value in place, a new key goes to
  the end. A missing value is a \<^verbatim>\<open>KeyError\<close>, in whose handler the
  \<^verbatim>\<open>IssuerError\<close> is raised.
\<close>

definition missing_value_message :: "string \<Rightarrow> string" where
  "missing_value_message attribute =
     ''Provided credential values are missing a value '' @
     ''for the schema attribute '' @ [CHR 0x27] @ attribute @ [CHR 0x27]"

definition encoded_entry :: "deps \<Rightarrow> pyval \<Rightarrow> json" where
  "encoded_entry d credential_value =
     JObj [(''raw'', JStr (py_str credential_value)),
           (''encoded'', util_encode d credential_value)]"

fun encode_attributes ::
  "deps \<Rightarrow> (string \<rightharpoonup> pyval) \<Rightarrow> string list \<Rightarrow> (string \<times> json) list
     \<Rightarrow> exn + (string \<times> json) list" where
  "encode_attributes d credential_values [] encoded_values = Inr encoded_values"
| "encode_attributes d credential_values (attribute # rest) encoded_values =
     (case credential_values attribute of
        None \<Rightarrow>
          Inl (raise_handling (new_IssuerError (missing_value_message attribute))
                 (KeyError attribute))
      | Some credential_value \<Rightarrow>
          encode_attributes d credential_values rest
            (AList.update attribute (encoded_entry d credential_value) encoded_values))"

text \<open>
  The two \<^verbatim>\<open>except\<close> clauses around the issuance primitive, in their order; the first
  one also writes to the log.
\<close>

fun issuance_except :: "deps \<Rightarrow> exn \<Rightarrow> 'e world \<Rightarrow> exn \<times> 'e world" where
  "issuance_except d (IndyError code) w =
     (if code = AnoncredsRevocationRegistryFullError
      then (raise_handling (new_IssuerRevocationRegistryFullError ''Revocation registry full'')
              (IndyError code),
            w\<lparr>logged := logged w @ [''Revocation registry is full when creating a credential.'']\<rparr>)
      else (raise_from
              (wrap_error d (IndyError code) ''Error when issuing credential'' new_IssuerError)
              (IndyError code), w))"
| "issuance_except d e w = (e, w)"

definition create_credential ::
  "deps \<Rightarrow> 'e engine \<Rightarrow> issuer \<Rightarrow> schema \<Rightarrow> json \<Rightarrow> json \<Rightarrow> (string \<rightharpoonup> pyval)
     \<Rightarrow> string option \<Rightarrow> int option \<Rightarrow> ('e, json \<times> string option) eff" where
  "create_credential d eng self sch credential_offer credential_request credential_values
       revoc_reg_id tails_reader_handle w =
     (case encode_attributes d credential_values (attrNames sch) [] of
        Inl e \<Rightarrow> (Inl e, w)
      | Inr encoded_values \<Rightarrow>
          (let offer_json = json_dumps d credential_offer;
               request_json = json_dumps d credential_request;
               values_json = json_dumps d (JObj encoded_values)
           in case invoke
                     (IssuerCreateCredential (wallet_handle self) offer_json request_json
                        values_json revoc_reg_id tails_reader_handle)
                     (issuer_create_credential eng (wallet_handle self) offer_json request_json
                        values_json revoc_reg_id tails_reader_handle) w of
                (Inl e, w') \<Rightarrow> (case issuance_except d e w' of (e', w'') \<Rightarrow> (Inl e', w''))
              | (Inr (credential_json, credential_revocation_id, revoc_reg_delta_json), w') \<Rightarrow>
                  (case json_loads d credential_json of
                     Inl e \<Rightarrow> (Inl e, w')
                   | Inr credential \<Rightarrow> (Inr (credential, credential_revocation_id), w'))))"

subsection \<open>Revocation\<close>

definition revoke_credential ::
  "deps \<Rightarrow> 'e engine \<Rightarrow> issuer \<Rightarrow> string \<Rightarrow> int \<Rightarrow> string \<Rightarrow> ('e, json) eff" where
  "revoke_credential d eng self revoc_reg_id tails_reader_handle cred_revoc_id w =
     (case IndyErrorHandler d ''Exception when revoking credential'' new_IssuerError
             (invoke
                (IssuerRevokeCredential (wallet_handle self) tails_reader_handle revoc_reg_id
                   cred_revoc_id)
                (issuer_revoke_credential eng (wallet_handle self) tails_reader_handle
                   revoc_reg_id cred_revoc_id)) w of
        (Inl e, w') \<Rightarrow> (Inl e, w')
      | (Inr revoc_reg_delta_json, w') \<Rightarrow> (json_loads d revoc_reg_delta_json, w'))"

definition create_and_store_revocation_registry ::
  "deps \<Rightarrow> 'e engine \<Rightarrow> issuer \<Rightarrow> string \<Rightarrow> string \<Rightarrow> string \<Rightarrow> string \<Rightarrow> int \<Rightarrow> string
     \<Rightarrow> string option \<Rightarrow> ('e, string \<times> string \<times> string) eff" where
  "create_and_store_revocation_registry d eng self origin_did cred_def_id revoc_def_type tag
       max_cred_num tails_base_path issuance_type w =
     (let tails_writer_config =
            json_dumps d (JObj [(''base_dir'', JStr tails_base_path), (''uri_pattern'', JStr [])])
      in case invoke (BlobStorageOpenWriter ''default'' tails_writer_config)
                (open_writer eng ''default'' tails_writer_config) w of
           (Inl e, w') \<Rightarrow> (Inl e, w')
         | (Inr tails_writer, w') \<Rightarrow>
             IndyErrorHandler d ''Exception when creating revocation registry'' new_IssuerError
               (let config =
                      json_dumps d
                        (JObj [(''max_cred_num'', JInt max_cred_num),
                               (''issuance_type'',
                                JStr (py_or issuance_type (DEFAULT_ISSUANCE_TYPE d)))])
                in invoke
                     (IssuerCreateAndStoreRevocReg (wallet_handle self) origin_did revoc_def_type
                        tag cred_def_id config tails_writer)
                     (issuer_create_and_store_revoc_reg eng (wallet_handle self) origin_did
                        revoc_def_type tag cred_def_id config tails_writer)) w')"

section \<open>The attribute encoder\<close>

text \<open>
  Modelled from the spec: the parts of \<^verbatim>\<open>encode\<close> of \<^verbatim>\<open>..messaging.util\<close>,
  which the issuer imports and which is not in the file. They follow section 4.1 of the
  design document: reading a string as a base-10 integer, the UTF-8 bytes of a string, and
  a sequence of bytes read as a big-endian unsigned integer.
\<close>

definition is_digit :: "char \<Rightarrow> bool" where
  "is_digit c = (48 \<le> (of_char c :: nat) \<and> (of_char c :: nat) \<le> 57)"

definition digit_value :: "char \<Rightarrow> nat" where
  "digit_value c = of_char c - 48"

definition parse_nat :: "string \<Rightarrow> nat option" where
  "parse_nat s =
     (if s \<noteq> [] \<and> list_all is_digit s
      then Some (foldl (\<lambda>acc c. 10 * acc + digit_value c) 0 s)
      else None)"

text \<open>
  Modelled from the spec: "parses as a base-10 integer", read as an optional sign and one
  digit or more.
\<close>

fun parse_int :: "string \<Rightarrow> int option" where
  "parse_int [] = None"
| "parse_int (c # cs) =
     (if c = CHR ''-'' then map_option (\<lambda>n. - int n) (parse_nat cs)
      else if c = CHR ''+'' then map_option int (parse_nat cs)
      else map_option int (parse_nat (c # cs)))"

text \<open>
  Modelled from the spec: "the UTF-8 bytes of the canonical string", code point by code
  point, and "the digest as a big-endian unsigned integer".
\<close>

definition utf8_code_point :: "nat \<Rightarrow> 8 word list" where
  "utf8_code_point n =
     (if n < 0x80 then [of_nat n]
      else if n < 0x800 then [of_nat (0xC0 + n div 64), of_nat (0x80 + n mod 64)]
      else if n < 0x10000
        then [of_nat (0xE0 + n div 4096), of_nat (0x80 + n div 64 mod 64), of_nat (0x80 + n mod 64)]
      else [of_nat (0xF0 + n div 262144), of_nat (0x80 + n div 4096 mod 64),
            of_nat (0x80 + n div 64 mod 64), of_nat (0x80 + n mod 64)])"

definition utf8_bytes :: "string \<Rightarrow> 8 word list" where
  "utf8_bytes s = concat (map (\<lambda>c. utf8_code_point (of_char c)) s)"

text \<open>
  Modelled from the spec: "a 256-bit digest". The digest is a word of 256 bits;
  \<open>digest_bytes\<close> are its 32 bytes, the most significant one first
  (\<open>big_endian n x\<close> are the \<open>n\<close> lowest bytes of \<open>x\<close> in that order).
\<close>

fun big_endian :: "nat \<Rightarrow> int \<Rightarrow> 8 word list" where
  "big_endian 0 x = []"
| "big_endian (Suc n) x = big_endian n (x div 256) @ [of_int (x mod 256)]"

definition digest_bytes :: "256 word \<Rightarrow> 8 word list" where
  "digest_bytes h = big_endian 32 (uint h)"

text \<open>
  Modelled from the spec: "interpret the digest as a big-endian unsigned integer", for
  any sequence of bytes.
\<close>

definition from_bytes_big :: "8 word list \<Rightarrow> int" where
  "from_bytes_big bs = foldl (\<lambda>acc b. 256 * acc + uint b) 0 bs"

text \<open>
  Modelled from the spec: the integer that \<^verbatim>\<open>encode\<close> of \<^verbatim>\<open>..messaging.util\<close>
  stands for; the function is not in the file. "Convert rawValue to its canonical string
  form. If that string parses as a base-10 integer representable within the signature
  scheme's supported magnitude, the encoded value is that integer exactly (sign
  preserved). Otherwise, compute a cryptographic hash over the UTF-8 bytes of the
  canonical string, and interpret the digest as a big-endian unsigned integer."
  \<open>representable\<close> is the supported magnitude, \<open>digest\<close> the hash.
\<close>

definition encoded_integer :: "(int \<Rightarrow> bool) \<Rightarrow> (8 word list \<Rightarrow> 256 word) \<Rightarrow> pyval \<Rightarrow> int" where
  "encoded_integer representable digest raw_value =
     (let canonical = py_str raw_value;
          hashed = from_bytes_big (digest_bytes (digest (utf8_bytes canonical)))
      in case parse_int canonical of
           None \<Rightarrow> hashed
         | Some i \<Rightarrow> if representable i then i else hashed)"

text \<open>
  Modelled from the spec: \<^verbatim>\<open>encode\<close> of \<^verbatim>\<open>..messaging.util\<close>, which is not in the
  file. The data model of the design document has the \<^verbatim>\<open>encoded\<close> entry of a
  credential value as "integer-as-string", and the issuer stores what \<^verbatim>\<open>encode\<close>
  returns as it is: the function returns the decimal numeral of the encoded integer.
\<close>

definition encode :: "(int \<Rightarrow> bool) \<Rightarrow> (8 word list \<Rightarrow> 256 word) \<Rightarrow> pyval \<Rightarrow> string" where
  "encode representable digest raw_value =
     str_int (encoded_integer representable digest raw_value)"

section \<open>Sample collaborators\<close>

text \<open>
  Concrete dependencies and engines on which the theorems below are run. The engine's
  state is a counter of the calls it has served. The serialiser prints the keys of an
  object and the text of a string; the parser returns the text as a JSON string.
\<close>

definition sample_dumps :: "json \<Rightarrow> string" where
  "sample_dumps j =
     (case j of
        JObj entries \<Rightarrow> ''{'' @ concat (map (\<lambda>(k, v). k @ '';'') entries) @ ''}''
      | JStr s \<Rightarrow> s
      | _ \<Rightarrow> ''_'')"

definition sample_deps :: deps where
  "sample_deps =
     \<lparr>DEFAULT_CRED_DEF_TAG = ''default'',
      DEFAULT_ISSUANCE_TYPE = ''ISSUANCE_BY_DEFAULT'',
      DEFAULT_SIGNATURE_TYPE = ''CL'',
      util_encode = (\<lambda>v. JStr (py_str v)),
      error_text = (\<lambda>message err. message),
      json_dumps = sample_dumps,
      json_loads = (\<lambda>s. Inr (JStr s))\<rparr>"

definition sample_engine :: "nat engine" where
  "sample_engine =
     \<lparr>issuer_create_schema = (\<lambda>did name version attrs s. (Inr (''schema-id'', ''schema''), Suc s)),
      issuer_create_and_store_credential_def =
        (\<lambda>h did sch tag sigtype config s. (Inr (''cred-def-id'', ''cred-def''), Suc s)),
      issuer_create_credential_offer = (\<lambda>h cid s. (Inr ''offer'', Suc s)),
      issuer_create_credential =
        (\<lambda>h offer request vals rr th s. (Inr (''credential'', Some ''7'', Some ''delta''), Suc s)),
      issuer_revoke_credential = (\<lambda>h th rr cr s. (Inr ''delta'', Suc s)),
      issuer_create_and_store_revoc_reg =
        (\<lambda>h did ty tag cid config tw s. (Inr (''rev-reg-id'', ''rev-reg-def'', ''rev-reg-entry''), Suc s)),
      open_writer = (\<lambda>ty config s. (Inr 5, Suc s))\<rparr>"

text \<open>An engine and tails store whose every primitive fails with the given code.\<close>

definition failing_engine :: "error_code \<Rightarrow> nat engine" where
  "failing_engine code =
     \<lparr>issuer_create_schema = (\<lambda>did name version attrs s. (Inl code, Suc s)),
      issuer_create_and_store_credential_def = (\<lambda>h did sch tag sigtype config s. (Inl code, Suc s)),
      issuer_create_credential_offer = (\<lambda>h cid s. (Inl code, Suc s)),
      issuer_create_credential = (\<lambda>h offer request vals rr th s. (Inl code, Suc s)),
      issuer_revoke_credential = (\<lambda>h th rr cr s. (Inl code, Suc s)),
      issuer_create_and_store_revoc_reg = (\<lambda>h did ty tag cid config tw s. (Inl code, Suc s)),
      open_writer = (\<lambda>ty config s. (Inl code, Suc s))\<rparr>"

definition sample_world :: "nat world" where
  "sample_world = \<lparr>engine_state = 0, calls = [], logged = []\<rparr>"

definition sample_issuer :: issuer where
  "sample_issuer = \<lparr>wallet_handle = 1\<rparr>"

definition sample_schema :: schema where
  "sample_schema =
     \<lparr>attrNames = [''name'', ''age''],
      seqNo = Some (PInt 15),
      other_entries =
        [(''ver'', JStr ''1.0''), (''id'', JStr ''did:x:2:prefs:1.0''),
         (''name'', JStr ''prefs''), (''version'', JStr ''1.0'')],
      key_order = [''ver'', ''id'', ''name'', ''version'', ''attrNames'', ''seqNo'']\<rparr>"

definition sample_values :: "string \<rightharpoonup> pyval" where
  "sample_values = [''name'' \<mapsto> PStr ''Alice'', ''age'' \<mapsto> PInt 30, ''nickname'' \<mapsto> PStr ''Al'']"

text \<open>
  A stand-in for the digest: the number of bytes hashed. The sample magnitude is that of
  a signed 32-bit integer. In \<open>sample_encoding_deps\<close> the issuer's \<^verbatim>\<open>encode\<close> is
  the encoder of the design document; the string it returns is stored as a JSON string.
\<close>

definition sample_digest :: "8 word list \<Rightarrow> 256 word" where
  "sample_digest bs = of_nat (length bs)"

definition sample_representable :: "int \<Rightarrow> bool" where
  "sample_representable i = (- (2 ^ 31) \<le> i \<and> i < 2 ^ 31)"

definition sample_encoding_deps :: deps where
  "sample_encoding_deps =
     sample_deps\<lparr>util_encode := (\<lambda>v. JStr (encode sample_representable sample_digest v))\<rparr>"

section \<open>Properties\<close>

subsection \<open>The loop over the schema attributes\<close>

lemma encode_attributes_missing:
  "find (\<lambda>a. cv a = None) names = Some a \<Longrightarrow>
   encode_attributes d cv names ev =
     Inl (IssuerError (missing_value_message a) None (Some (KeyError a)))"
  by (induction names arbitrary: ev) (auto simp: new_IssuerError_def split: if_splits)

lemma encode_attributes_present:
  "\<forall>a\<in>set names. cv a \<noteq> None \<Longrightarrow> \<exists>ev'. encode_attributes d cv names ev = Inr ev'"
  by (induction names arbitrary: ev) auto

lemma encode_attributes_keys:
  "encode_attributes d cv names ev = Inr ev' \<Longrightarrow>
   set (map fst ev') = set (map fst ev) \<union> set names"
proof (induction names arbitrary: ev)
  case Nil
  then show ?case by simp
next
  case (Cons a names)
  then show ?case
    by (auto simp: dom_update split: option.splits)
qed

lemma encode_attributes_distinct:
  "encode_attributes d cv names ev = Inr ev' \<Longrightarrow> distinct (map fst ev) \<Longrightarrow>
   distinct (map fst ev')"
proof (induction names arbitrary: ev)
  case Nil
  then show ?case by simp
next
  case (Cons a names)
  then show ?case
    by (auto simp: distinct_update split: option.splits)
qed

lemma encode_attributes_entries:
  "encode_attributes d cv names ev = Inr ev' \<Longrightarrow>
   map_of ev' a =
     (if a \<in> set names then map_option (encoded_entry d) (cv a) else map_of ev a)"
proof (induction names arbitrary: ev)
  case Nil
  then show ?case by simp
next
  case (Cons b names)
  then show ?case
    by (auto simp: update_conv' split: option.splits)
qed

lemma encode_attributes_restrict:
  "set names \<subseteq> S \<Longrightarrow>
   encode_attributes d (cv |` S) names ev = encode_attributes d cv names ev"
  by (induction names arbitrary: ev) (auto simp: restrict_map_def split: option.splits)

lemma create_credential_calls:
  assumes "encode_attributes d credential_values (attrNames sch) [] = Inr ev"
  shows "calls (snd (create_credential d eng self sch offer request credential_values rr th w)) =
           calls w @
             [IssuerCreateCredential (wallet_handle self) (json_dumps d offer)
                (json_dumps d request) (json_dumps d (JObj ev)) rr th]"
proof -
  obtain r s' where r: "issuer_create_credential eng (wallet_handle self) (json_dumps d offer)
             (json_dumps d request) (json_dumps d (JObj ev)) rr th (engine_state w) = (r, s')"
    by (cases "issuer_create_credential eng (wallet_handle self) (json_dumps d offer)
             (json_dumps d request) (json_dumps d (JObj ev)) rr th (engine_state w)")
  show ?thesis
  proof (cases r)
    case (Inl code)
    with r show ?thesis
      by (simp add: create_credential_def assms invoke_def Let_def)
  next
    case (Inr res)
    with r show ?thesis
      by (cases res; cases "json_loads d (fst res)")
         (simp_all add: create_credential_def assms invoke_def Let_def)
  qed
qed

subsection \<open>Decimal numerals and digests\<close>

lemma str_nat_digit: "n < 10 \<Longrightarrow> str_nat n = [digit_char n]"
  by (simp add: str_nat.simps)

lemma str_nat_step: "10 \<le> n \<Longrightarrow> str_nat n = str_nat (n div 10) @ [digit_char (n mod 10)]"
  by (subst str_nat.simps) simp

lemmas str_eval = str_int_def str_nat_digit str_nat_step digit_char_def

lemma digit_char_props:
  assumes "d < 10"
  shows "is_digit (digit_char d) \<and> digit_value (digit_char d) = d"
proof -
  from assms have "d \<in> {0, 1, 2, 3, 4, 5, 6, 7, 8, 9}"
    by auto
  then show ?thesis
    by (auto simp: digit_char_def is_digit_def digit_value_def)
qed

lemma str_nat_digits:
  "str_nat n \<noteq> [] \<and> list_all is_digit (str_nat n)
   \<and> foldl (\<lambda>acc c. 10 * acc + digit_value c) 0 (str_nat n) = n"
proof (induction n rule: str_nat.induct)
  case (1 n)
  show ?case
  proof (cases "n < 10")
    case True
    then show ?thesis
      using digit_char_props [of n] by (simp add: str_nat.simps [of n])
  next
    case False
    then have "n mod 10 < 10"
      by simp
    with False 1 digit_char_props [of "n mod 10"] show ?thesis
      by (simp add: str_nat.simps [of n])
  qed
qed

lemma parse_nat_str_nat: "parse_nat (str_nat n) = Some n"
  using str_nat_digits [of n] by (simp add: parse_nat_def)

lemma parse_int_str_int: "parse_int (str_int i) = Some i"
proof (cases "i < 0")
  case True
  then show ?thesis
    by (simp add: str_int_def parse_nat_str_nat)
next
  case False
  obtain c cs where cs: "str_nat (nat i) = c # cs"
    using str_nat_digits [of "nat i"] by (cases "str_nat (nat i)") auto
  with str_nat_digits [of "nat i"] have "is_digit c"
    by simp
  then have "c \<noteq> CHR ''-'' \<and> c \<noteq> CHR ''+''"
    by (auto simp: is_digit_def)
  with False cs parse_nat_str_nat [of "nat i"] show ?thesis
    by (simp add: str_int_def)
qed

lemma from_bytes_big_bounds:
  "0 \<le> from_bytes_big bs \<and> from_bytes_big bs < 256 ^ length bs"
proof (induction bs rule: rev_induct)
  case Nil
  then show ?case by (simp add: from_bytes_big_def)
next
  case (snoc b bs)
  have b: "0 \<le> uint b \<and> uint b < 256"
    using uint_lt2p [of b] by simp
  from snoc have "from_bytes_big bs + 1 \<le> 256 ^ length bs"
    by simp
  then have "256 * (from_bytes_big bs + 1) \<le> 256 * 256 ^ length bs"
    by simp
  with b snoc show ?case
    by (simp add: from_bytes_big_def)
qed

lemma from_bytes_big_snoc:
  "from_bytes_big (bs @ [b]) = 256 * from_bytes_big bs + uint b"
  by (simp add: from_bytes_big_def)

lemma from_bytes_big_big_endian:
  "from_bytes_big (big_endian n x) = x mod 256 ^ n"
proof (induction n arbitrary: x)
  case 0
  then show ?case by (simp add: from_bytes_big_def)
next
  case (Suc n)
  have "uint (of_int (x mod 256) :: 8 word) = x mod 256"
    by (simp add: uint_word_of_int take_bit_eq_mod)
  moreover have "x mod (256 * 256 ^ n) = 256 * (x div 256 mod 256 ^ n) + x mod 256"
    by (rule zmod_zmult2_eq) simp
  ultimately show ?case
    using Suc by (simp add: from_bytes_big_snoc)
qed

lemma length_big_endian: "length (big_endian n x) = n"
  by (induction n arbitrary: x) simp_all

lemma from_bytes_big_digest_bytes: "from_bytes_big (digest_bytes h) = uint h"
proof -
  have "uint h < 2 ^ 256"
    using uint_lt2p [of h] by simp
  moreover have "(256::int) ^ 32 = 2 ^ 256"
    by simp
  ultimately show ?thesis
    by (simp add: digest_bytes_def from_bytes_big_big_endian)
qed

subsection \<open>The translation points\<close>

lemma handler_translates:
  assumes "fst (IndyErrorHandler d message new_IssuerError (invoke c f) w) = Inl e"
  shows "is_IssuerError e \<and> (\<exists>code. cause e = Some (IndyError code))"
proof -
  obtain r s' where r: "f (engine_state w) = (r, s')"
    by (cases "f (engine_state w)")
  with assms show ?thesis
    by (cases r)
       (auto simp: IndyErrorHandler_def invoke_def wrap_error_def new_IssuerError_def)
qed

lemma create_and_store_schema_translates:
  "fst (create_and_store_schema d eng origin_did schema_name schema_version attribute_names w)
     = Inl e \<Longrightarrow>
   is_IssuerError e \<and> (\<exists>code. cause e = Some (IndyError code))"
  unfolding create_and_store_schema_def Let_def by (rule handler_translates)

lemma create_and_store_credential_definition_translates:
  "fst (create_and_store_credential_definition d eng self origin_did sch signature_type tag
          support_revocation w) = Inl e \<Longrightarrow>
   is_IssuerError e \<and> (\<exists>code. cause e = Some (IndyError code))"
  unfolding create_and_store_credential_definition_def Let_def by (rule handler_translates)

lemma revocation_registry_translates_after_open:
  assumes "open_writer eng ''default''
              (json_dumps d (JObj [(''base_dir'', JStr tails_base_path), (''uri_pattern'', JStr [])]))
              (engine_state w) = (Inr tails_writer, s1)"
      and "fst (create_and_store_revocation_registry d eng self origin_did cred_def_id
                  revoc_def_type tag max_cred_num tails_base_path issuance_type w) = Inl e"
  shows "is_IssuerError e \<and> (\<exists>code. cause e = Some (IndyError code))"
  using assms(2)
  unfolding create_and_store_revocation_registry_def Let_def
  by (simp add: invoke_def assms(1)) (rule handler_translates [unfolded Let_def])

section \<open>The claims\<close>

text \<open>
  Claim C1. The encoder of the design document applies one two-branch rule to a raw value,
  here a Python scalar whose string has code points below 256. When the canonical string
  of the value parses as a base-10 integer within the supported magnitude, the encoded
  integer is that integer, sign included; otherwise it is the 256-bit digest of the UTF-8
  bytes of the canonical string, its bytes read as a big-endian unsigned integer, which is
  the value of the digest as a word and lies below \<open>2 ^ 256\<close>. What \<^verbatim>\<open>encode\<close>
  returns is the decimal numeral of the encoded integer and parses back to it; an integer
  within the magnitude, or its decimal numeral, is encoded as its own numeral. In
  \<open>create_credential\<close>, whatever function the issuer has imported as
  \<^verbatim>\<open>encode\<close>, the values handed to the issuance primitive hold, for each attribute
  of the schema, the string of its value as \<^verbatim>\<open>raw\<close> and what \<^verbatim>\<open>encode\<close>
  returns for its value, as it is, as \<^verbatim>\<open>encoded\<close>.
\<close>

theorem encode_two_branch_rule:
  "(\<forall>i. parse_int (py_str raw_value) = Some i \<and> representable i \<longrightarrow>
      encoded_integer representable digest raw_value = i
      \<and> encode representable digest raw_value = str_int i)
   \<and> ((\<forall>i. parse_int (py_str raw_value) = Some i \<longrightarrow> \<not> representable i) \<longrightarrow>
      encoded_integer representable digest raw_value =
        from_bytes_big (digest_bytes (digest (utf8_bytes (py_str raw_value))))
      \<and> encode representable digest raw_value =
        str_int (from_bytes_big (digest_bytes (digest (utf8_bytes (py_str raw_value))))))
   \<and> from_bytes_big (digest_bytes (digest (utf8_bytes (py_str raw_value)))) =
       uint (digest (utf8_bytes (py_str raw_value)))
   \<and> 0 \<le> from_bytes_big (digest_bytes (digest (utf8_bytes (py_str raw_value))))
   \<and> from_bytes_big (digest_bytes (digest (utf8_bytes (py_str raw_value)))) < 2 ^ 256
   \<and> parse_int (encode representable digest raw_value) =
       Some (encoded_integer representable digest raw_value)
   \<and> (\<forall>i. representable i \<longrightarrow>
         encode representable digest (PInt i) = str_int i
         \<and> encode representable digest (PStr (str_int i)) = str_int i)
   \<and> (\<forall>ev. encode_attributes d credential_values (attrNames sch) [] = Inr ev \<longrightarrow>
         calls (snd (create_credential d eng self sch offer request credential_values
                       rr th w)) =
           calls w @
             [IssuerCreateCredential (wallet_handle self) (json_dumps d offer)
                (json_dumps d request) (json_dumps d (JObj ev)) rr th]
         \<and> (\<forall>a\<in>set (attrNames sch).
               \<exists>v. credential_values a = Some v
                 \<and> map_of ev a =
                     Some (JObj [(''raw'', JStr (py_str v)),
                                 (''encoded'', util_encode d v)])))"
proof -
  let ?h = "from_bytes_big (digest_bytes (digest (utf8_bytes (py_str raw_value))))"
  have int_branch: "\<forall>i. parse_int (py_str raw_value) = Some i \<and> representable i \<longrightarrow>
      encoded_integer representable digest raw_value = i
      \<and> encode representable digest raw_value = str_int i"
    by (simp add: encode_def encoded_integer_def Let_def)
  have hash_branch: "(\<forall>i. parse_int (py_str raw_value) = Some i \<longrightarrow> \<not> representable i) \<longrightarrow>
      encoded_integer representable digest raw_value = ?h
      \<and> encode representable digest raw_value = str_int ?h"
    by (simp add: encode_def encoded_integer_def Let_def split: option.splits)
  have word: "?h = uint (digest (utf8_bytes (py_str raw_value)))"
    by (rule from_bytes_big_digest_bytes)
  have "(256::int) ^ 32 = 2 ^ 256"
    by simp
  with from_bytes_big_bounds [of "digest_bytes (digest (utf8_bytes (py_str raw_value)))"]
  have bound: "0 \<le> ?h \<and> ?h < 2 ^ 256"
    by (simp add: length_big_endian digest_bytes_def)
  have numeral: "parse_int (encode representable digest raw_value) =
       Some (encoded_integer representable digest raw_value)"
    by (simp add: encode_def parse_int_str_int)
  have ints: "\<forall>i. representable i \<longrightarrow>
         encode representable digest (PInt i) = str_int i
         \<and> encode representable digest (PStr (str_int i)) = str_int i"
    by (simp add: encode_def encoded_integer_def Let_def parse_int_str_int)
  have stored: "\<forall>ev. encode_attributes d credential_values (attrNames sch) [] = Inr ev \<longrightarrow>
         calls (snd (create_credential d eng self sch offer request credential_values
                       rr th w)) =
           calls w @
             [IssuerCreateCredential (wallet_handle self) (json_dumps d offer)
                (json_dumps d request) (json_dumps d (JObj ev)) rr th]
         \<and> (\<forall>a\<in>set (attrNames sch).
               \<exists>v. credential_values a = Some v
                 \<and> map_of ev a =
                     Some (JObj [(''raw'', JStr (py_str v)),
                                 (''encoded'', util_encode d v)]))"
  proof (intro allI impI conjI ballI)
    fix ev
    assume ev: "encode_attributes d credential_values (attrNames sch) [] = Inr ev"
    show "calls (snd (create_credential d eng self sch offer request credential_values
                          rr th w)) =
              calls w @
                [IssuerCreateCredential (wallet_handle self) (json_dumps d offer)
                   (json_dumps d request) (json_dumps d (JObj ev)) rr th]"
      by (rule create_credential_calls [OF ev])
    fix a
    assume a: "a \<in> set (attrNames sch)"
    have m: "map_of ev a = map_option (encoded_entry d) (credential_values a)"
      using encode_attributes_entries [OF ev, of a] a by simp
    have "credential_values a \<noteq> None"
    proof
      assume "credential_values a = None"
      with a have "find (\<lambda>x. credential_values x = None) (attrNames sch) \<noteq> None"
        by (auto simp: find_None_iff)
      then obtain b where "find (\<lambda>x. credential_values x = None) (attrNames sch) = Some b"
        by blast
      from encode_attributes_missing [OF this, of d "[]"] ev show False
        by simp
    qed
    then obtain v where v: "credential_values a = Some v"
      by blast
    with m show "\<exists>v. credential_values a = Some v
                    \<and> map_of ev a =
                        Some (JObj [(''raw'', JStr (py_str v)),
                                    (''encoded'', util_encode d v)])"
      by (simp add: encoded_entry_def)
  qed
  from int_branch hash_branch word bound numeral ints stored show ?thesis
    by blast
qed

theorem encode_two_branch_rule_witness:
  "parse_int (py_str (PStr ''-7'')) = Some (- 7) \<and> sample_representable (- 7)
   \<and> encode sample_representable sample_digest (PStr ''-7'') = ''-7''
   \<and> parse_int (py_str (PStr ''abc'')) = None
   \<and> encode sample_representable sample_digest (PStr ''abc'') = ''3''
   \<and> sample_representable 412
   \<and> encode sample_representable sample_digest (PInt 412) = ''412''
   \<and> encode_attributes sample_encoding_deps sample_values (attrNames sample_schema) [] =
       Inr [(''name'', JObj [(''raw'', JStr ''Alice''), (''encoded'', JStr ''5'')]),
            (''age'', JObj [(''raw'', JStr ''30''), (''encoded'', JStr ''30'')])]
   \<and> calls (snd (create_credential sample_encoding_deps sample_engine sample_issuer
                   sample_schema JNull JNull sample_values None None sample_world)) =
       [IssuerCreateCredential 1 ''_'' ''_'' ''{name;age;}'' None None]"
proof -
  have ev: "encode_attributes sample_encoding_deps sample_values (attrNames sample_schema) [] =
       Inr [(''name'', JObj [(''raw'', JStr ''Alice''), (''encoded'', JStr ''5'')]),
            (''age'', JObj [(''raw'', JStr ''30''), (''encoded'', JStr ''30'')])]"
    by code_simp
  have p: "parse_int (py_str (PStr ''-7'')) = Some (- 7) \<and> sample_representable (- 7)"
    by code_simp
  have r: "sample_representable 412"
    by code_simp
  have q: "parse_int (py_str (PStr ''abc'')) = None"
    by code_simp
  then have n: "\<forall>i. parse_int (py_str (PStr ''abc'')) = Some i \<longrightarrow> \<not> sample_representable i"
    by simp
  have h: "str_int (from_bytes_big (digest_bytes (sample_digest (utf8_bytes (py_str (PStr ''abc'')))))) = ''3''"
    by code_simp
  have s7: "str_int (- 7) = ''-7''"
    by (simp add: str_eval)
  have s412: "str_int 412 = ''412''"
    by (simp add: str_eval)
  from encode_two_branch_rule [where raw_value = "PStr ''-7''"
      and representable = sample_representable and digest = sample_digest] p
  have "encode sample_representable sample_digest (PStr ''-7'') = str_int (- 7)"
    by blast
  from this s7 have a: "encode sample_representable sample_digest (PStr ''-7'') = ''-7''"
    by (rule trans)
  from encode_two_branch_rule [where raw_value = "PStr ''abc''"
      and representable = sample_representable and digest = sample_digest] n
  have "encode sample_representable sample_digest (PStr ''abc'') =
          str_int (from_bytes_big (digest_bytes (sample_digest (utf8_bytes (py_str (PStr ''abc''))))))"
    by blast
  from this h have b: "encode sample_representable sample_digest (PStr ''abc'') = ''3''"
    by (rule trans)
  from encode_two_branch_rule [where representable = sample_representable
      and digest = sample_digest] r
  have "encode sample_representable sample_digest (PInt 412) = str_int 412"
    by blast
  from this s412 have c: "encode sample_representable sample_digest (PInt 412) = ''412''"
    by (rule trans)
  from encode_two_branch_rule [where d = sample_encoding_deps
      and credential_values = sample_values and sch = sample_schema and eng = sample_engine
      and self = sample_issuer and offer = JNull and request = JNull and rr = None
      and th = None and w = sample_world] ev
  have "calls (snd (create_credential sample_encoding_deps sample_engine sample_issuer
                   sample_schema JNull JNull sample_values None None sample_world)) =
        calls sample_world @
          [IssuerCreateCredential (wallet_handle sample_issuer)
             (json_dumps sample_encoding_deps JNull) (json_dumps sample_encoding_deps JNull)
             (json_dumps sample_encoding_deps
                (JObj [(''name'', JObj [(''raw'', JStr ''Alice''), (''encoded'', JStr ''5'')]),
                       (''age'', JObj [(''raw'', JStr ''30''), (''encoded'', JStr ''30'')])]))
             None None]"
    by blast
  then have e: "calls (snd (create_credential sample_encoding_deps sample_engine sample_issuer
                   sample_schema JNull JNull sample_values None None sample_world)) =
       [IssuerCreateCredential 1 ''_'' ''_'' ''{name;age;}'' None None]"
    by (simp add: sample_encoding_deps_def sample_deps_def sample_world_def sample_issuer_def
        sample_dumps_def)
  from p a q b r c ev e show ?thesis
    by blast
qed

text \<open>
  Claim C2. When the credential values lack a value for some attribute of the schema,
  \<open>create_credential\<close> raises an \<^verbatim>\<open>IssuerError\<close> whose message names the first
  such attribute, and the world is left as it was: no call has reached the engine.
\<close>

theorem create_credential_missing_attribute:
  assumes "a \<in> set (attrNames sch)" and "credential_values a = None"
  shows "\<exists>b. find (\<lambda>x. credential_values x = None) (attrNames sch) = Some b
           \<and> b \<in> set (attrNames sch) \<and> credential_values b = None
           \<and> create_credential d eng self sch offer request credential_values rr th w =
               (Inl (IssuerError (missing_value_message b) None (Some (KeyError b))), w)
           \<and> missing_value_message b =
               ''Provided credential values are missing a value for the schema attribute ''
                 @ [CHR 0x27] @ b @ [CHR 0x27]"
proof -
  from assms obtain b where b: "find (\<lambda>x. credential_values x = None) (attrNames sch) = Some b"
    by (cases "find (\<lambda>x. credential_values x = None) (attrNames sch)")
       (auto simp: find_None_iff)
  then have mem: "b \<in> set (attrNames sch) \<and> credential_values b = None"
    by (auto simp: find_Some_iff)
  have "create_credential d eng self sch offer request credential_values rr th w =
          (Inl (IssuerError (missing_value_message b) None (Some (KeyError b))), w)"
    by (simp add: create_credential_def encode_attributes_missing [OF b])
  with b mem show ?thesis
    by (simp add: missing_value_message_def)
qed

theorem create_credential_missing_attribute_witness:
  "''age'' \<in> set (attrNames sample_schema) \<and> [''name'' \<mapsto> PStr ''Alice''] ''age'' = None
   \<and> create_credential sample_deps sample_engine sample_issuer sample_schema JNull JNull
        [''name'' \<mapsto> PStr ''Alice''] None None sample_world =
      (Inl (IssuerError (missing_value_message ''age'') None (Some (KeyError ''age''))),
       sample_world)"
  using create_credential_missing_attribute [of "''age''" sample_schema "[''name'' \<mapsto> PStr ''Alice'']" sample_deps
              sample_engine sample_issuer JNull JNull None None sample_world]
  by (simp add: sample_schema_def)

text \<open>
  Claim C3. When the issuance primitive fails with the code of a full revocation
  registry, \<open>create_credential\<close> raises \<^verbatim>\<open>IssuerRevocationRegistryFullError\<close>, which
  is not a plain \<^verbatim>\<open>IssuerError\<close>; when it fails with any other code, the exception is
  a plain \<^verbatim>\<open>IssuerError\<close> whose cause is the engine's failure.
\<close>

theorem create_credential_engine_failure:
  assumes "encode_attributes d credential_values (attrNames sch) [] = Inr ev"
      and "issuer_create_credential eng (wallet_handle self) (json_dumps d offer)
             (json_dumps d request) (json_dumps d (JObj ev)) rr th (engine_state w) =
           (Inl code, s')"
  shows "(code = AnoncredsRevocationRegistryFullError \<longrightarrow>
            fst (create_credential d eng self sch offer request credential_values rr th w) =
              Inl (IssuerRevocationRegistryFullError ''Revocation registry full'' None
                     (Some (IndyError code))))
       \<and> (code \<noteq> AnoncredsRevocationRegistryFullError \<longrightarrow>
            fst (create_credential d eng self sch offer request credential_values rr th w) =
              Inl (IssuerError (error_text d ''Error when issuing credential'' (IndyError code))
                     (Some (IndyError code)) (Some (IndyError code))))
       \<and> (\<forall>m c x. fst (create_credential d eng self sch offer request credential_values rr th w)
                     = Inl (IssuerError m c x) \<longrightarrow> code \<noteq> AnoncredsRevocationRegistryFullError)"
  by (cases "code = AnoncredsRevocationRegistryFullError")
     (simp_all add: create_credential_def assms(1) invoke_def assms(2) wrap_error_def
        new_IssuerError_def new_IssuerRevocationRegistryFullError_def Let_def)

theorem create_credential_engine_failure_witness:
  "encode_attributes sample_deps sample_values (attrNames sample_schema) [] =
     Inr [(''name'', JObj [(''raw'', JStr ''Alice''), (''encoded'', JStr ''Alice'')]),
          (''age'', JObj [(''raw'', JStr ''30''), (''encoded'', JStr ''30'')])]
   \<and> fst (create_credential sample_deps (failing_engine AnoncredsRevocationRegistryFullError)
            sample_issuer sample_schema JNull JNull sample_values (Some ''rev-reg-id'') (Some 3)
            sample_world) =
       Inl (IssuerRevocationRegistryFullError ''Revocation registry full'' None
              (Some (IndyError AnoncredsRevocationRegistryFullError)))
   \<and> fst (create_credential sample_deps (failing_engine CommonInvalidStructure)
            sample_issuer sample_schema JNull JNull sample_values (Some ''rev-reg-id'') (Some 3)
            sample_world) =
       Inl (IssuerError ''Error when issuing credential''
              (Some (IndyError CommonInvalidStructure)) (Some (IndyError CommonInvalidStructure)))"
proof -
  have ev: "encode_attributes sample_deps sample_values (attrNames sample_schema) [] =
     Inr [(''name'', JObj [(''raw'', JStr ''Alice''), (''encoded'', JStr ''Alice'')]),
          (''age'', JObj [(''raw'', JStr ''30''), (''encoded'', JStr ''30'')])]"
    by code_simp
  have full: "issuer_create_credential (failing_engine AnoncredsRevocationRegistryFullError)
          (wallet_handle sample_issuer) (json_dumps sample_deps JNull) (json_dumps sample_deps JNull)
          (json_dumps sample_deps
             (JObj [(''name'', JObj [(''raw'', JStr ''Alice''), (''encoded'', JStr ''Alice'')]),
                    (''age'', JObj [(''raw'', JStr ''30''), (''encoded'', JStr ''30'')])]))
          (Some ''rev-reg-id'') (Some 3) (engine_state sample_world) =
        (Inl AnoncredsRevocationRegistryFullError, Suc 0)"
    by (simp add: failing_engine_def sample_world_def)
  have other: "issuer_create_credential (failing_engine CommonInvalidStructure)
          (wallet_handle sample_issuer) (json_dumps sample_deps JNull) (json_dumps sample_deps JNull)
          (json_dumps sample_deps
             (JObj [(''name'', JObj [(''raw'', JStr ''Alice''), (''encoded'', JStr ''Alice'')]),
                    (''age'', JObj [(''raw'', JStr ''30''), (''encoded'', JStr ''30'')])]))
          (Some ''rev-reg-id'') (Some 3) (engine_state sample_world) =
        (Inl CommonInvalidStructure, Suc 0)"
    by (simp add: failing_engine_def sample_world_def)
  show ?thesis
    using ev create_credential_engine_failure [OF ev full] create_credential_engine_failure [OF ev other]
    by (simp add: sample_deps_def)
qed

text \<open>
  Claim C4. \<open>credential_definition_in_wallet\<close> returns \<^verbatim>\<open>True\<close> when the probe
  succeeds; it returns \<^verbatim>\<open>False\<close> exactly when the probe fails with
  \<^verbatim>\<open>WalletItemNotFound\<close> or \<^verbatim>\<open>CommonInvalidStructure\<close>; a failure with any other
  code is raised as an \<^verbatim>\<open>IssuerError\<close> whose cause is the engine's failure.
\<close>

theorem credential_definition_in_wallet_outcomes:
  assumes "issuer_create_credential_offer eng (wallet_handle self) cid (engine_state w) = (r, s')"
  shows "(\<forall>offer. r = Inr offer \<longrightarrow>
            fst (credential_definition_in_wallet d eng self cid w) = Inr True)
       \<and> (fst (credential_definition_in_wallet d eng self cid w) = Inr False
            \<longleftrightarrow> r = Inl WalletItemNotFound \<or> r = Inl CommonInvalidStructure)
       \<and> (\<forall>code. r = Inl code \<and> code \<noteq> WalletItemNotFound \<and> code \<noteq> CommonInvalidStructure \<longrightarrow>
            fst (credential_definition_in_wallet d eng self cid w) =
              Inl (IssuerError
                     (error_text d ''Error when checking wallet for credential definition''
                        (IndyError code))
                     (Some (IndyError code)) (Some (IndyError code))))"
proof (cases r)
  case (Inl code)
  then show ?thesis
    by (simp add: credential_definition_in_wallet_def invoke_def assms wrap_error_def
        new_IssuerError_def)
next
  case (Inr offer)
  then show ?thesis
    by (simp add: credential_definition_in_wallet_def invoke_def assms)
qed

theorem credential_definition_in_wallet_outcomes_witness:
  "fst (credential_definition_in_wallet sample_deps (failing_engine WalletItemNotFound)
          sample_issuer ''did:x:3:CL:15:tag1'' sample_world) = Inr False
   \<and> fst (credential_definition_in_wallet sample_deps (failing_engine (OtherErrorCode 114))
          sample_issuer ''did:x:3:CL:15:tag1'' sample_world) =
       Inl (IssuerError ''Error when checking wallet for credential definition''
              (Some (IndyError (OtherErrorCode 114))) (Some (IndyError (OtherErrorCode 114))))
   \<and> fst (credential_definition_in_wallet sample_deps sample_engine
          sample_issuer ''did:x:3:CL:15:tag1'' sample_world) = Inr True"
  using credential_definition_in_wallet_outcomes [of "failing_engine WalletItemNotFound" sample_issuer "''did:x:3:CL:15:tag1''"
              sample_world "Inl WalletItemNotFound" "Suc 0" sample_deps]
        credential_definition_in_wallet_outcomes [of "failing_engine (OtherErrorCode 114)" sample_issuer "''did:x:3:CL:15:tag1''"
              sample_world "Inl (OtherErrorCode 114)" "Suc 0" sample_deps]
        credential_definition_in_wallet_outcomes [of sample_engine sample_issuer "''did:x:3:CL:15:tag1''"
              sample_world "Inr ''offer''" "Suc 0" sample_deps]
  by (simp add: failing_engine_def sample_engine_def sample_world_def sample_deps_def)

text \<open>
  Claim C5. Every failure of a collaborator leaves the issuer as an \<^verbatim>\<open>IssuerError\<close>
  or a subclass of it. The calls to \<^verbatim>\<open>indy.anoncreds\<close> are translated (lemmas
  \<open>handler_translates\<close> and those after it), but
  \<open>create_and_store_revocation_registry\<close> opens the tails writer outside its error
  handler: when \<^verbatim>\<open>indy.blob_storage.open_writer\<close> fails, here with code 114, the
  \<^verbatim>\<open>IndyError\<close> itself reaches the caller.
\<close>

theorem open_writer_failure_not_translated:
  "create_and_store_revocation_registry sample_deps (failing_engine (OtherErrorCode 114))
     sample_issuer ''did:x'' ''did:x:3:CL:15:tag1'' ''CL_ACCUM'' ''tag'' 100 ''/tmp/tails'' None
     sample_world =
   (Inl (IndyError (OtherErrorCode 114)),
    \<lparr>engine_state = Suc 0,
     calls = [BlobStorageOpenWriter ''default'' ''{base_dir;uri_pattern;}''],
     logged = []\<rparr>)
   \<and> \<not> is_IssuerError (IndyError (OtherErrorCode 114))"
  by (simp add: create_and_store_revocation_registry_def invoke_def sample_deps_def
      sample_world_def failing_engine_def sample_dumps_def)

text \<open>
  Claim C7, as amended. \<open>make_schema_id\<close> returns the origin, \<^verbatim>\<open>:2:\<close>, the name, a
  colon and the version. \<open>make_credential_definition_id\<close> returns the origin,
  \<^verbatim>\<open>:3:\<close>, the effective signature type, a colon, the string of the schema's sequence
  number, a colon and the effective tag (and fails with a \<^verbatim>\<open>KeyError\<close> for a schema
  without a sequence number). The effective signature type is the one given when it is
  given and not empty, and the default when it is omitted or empty; so for the tag, each
  argument on its own. The effective tag and signature type are the ones that
  \<open>create_and_store_credential_definition\<close> passes to the engine.
\<close>

theorem identifier_formats_and_defaults:
  assumes "signature_type = Some s \<and> s \<noteq> []
             \<or> (signature_type = None \<or> signature_type = Some []) \<and> s = DEFAULT_SIGNATURE_TYPE d"
      and "tag = Some t \<and> t \<noteq> []
             \<or> (tag = None \<or> tag = Some []) \<and> t = DEFAULT_CRED_DEF_TAG d"
  shows "make_schema_id origin_did name version = origin_did @ '':2:'' @ name @ '':'' @ version
       \<and> make_credential_definition_id d origin_did sch signature_type tag =
           (case seqNo sch of
              None \<Rightarrow> Inl (KeyError ''seqNo'')
            | Some n \<Rightarrow> Inr (origin_did @ '':3:'' @ s @ '':'' @ py_str n @ '':'' @ t))
       \<and> calls (snd (create_and_store_credential_definition d eng self origin_did sch
                       signature_type tag support_revocation w)) =
           calls w @
             [IssuerCreateAndStoreCredentialDef (wallet_handle self) origin_did
                (json_dumps d (JObj (schema_items sch))) t s
                (json_dumps d (JObj [(''support_revocation'', JBool support_revocation)]))]"
proof -
  from assms(1) have s: "py_or signature_type (DEFAULT_SIGNATURE_TYPE d) = s"
    by (auto simp: py_or_def)
  from assms(2) have t: "py_or tag (DEFAULT_CRED_DEF_TAG d) = t"
    by (auto simp: py_or_def)
  have id: "make_credential_definition_id d origin_did sch signature_type tag =
           (case seqNo sch of
              None \<Rightarrow> Inl (KeyError ''seqNo'')
            | Some n \<Rightarrow> Inr (origin_did @ '':3:'' @ s @ '':'' @ py_str n @ '':'' @ t))"
    by (simp add: make_credential_definition_id_def s t)
  have cs: "calls (snd (create_and_store_credential_definition d eng self origin_did sch
                       signature_type tag support_revocation w)) =
           calls w @
             [IssuerCreateAndStoreCredentialDef (wallet_handle self) origin_did
                (json_dumps d (JObj (schema_items sch))) t s
                (json_dumps d (JObj [(''support_revocation'', JBool support_revocation)]))]"
    by (simp add: create_and_store_credential_definition_def IndyErrorHandler_def invoke_def
        Let_def s t split: prod.splits sum.splits)
  from id cs show ?thesis
    unfolding make_schema_id_def by blast
qed

theorem identifier_formats_and_defaults_witness:
  "make_schema_id ''did:x'' ''name'' ''1.0'' = ''did:x:2:name:1.0''
   \<and> make_credential_definition_id sample_deps ''did:x'' sample_schema (Some ''CL'') (Some ''tag1'')
       = Inr ''did:x:3:CL:15:tag1''
   \<and> make_credential_definition_id sample_deps ''did:x'' sample_schema (Some ''CL2'') None
       = Inr ''did:x:3:CL2:15:default''
   \<and> make_credential_definition_id sample_deps ''did:x'' sample_schema None (Some ''tag1'')
       = Inr ''did:x:3:CL:15:tag1''
   \<and> make_credential_definition_id sample_deps ''did:x'' sample_schema None None
       = Inr ''did:x:3:CL:15:default''
   \<and> calls (snd (create_and_store_credential_definition sample_deps sample_engine sample_issuer
                   ''did:x'' sample_schema (Some ''CL2'') None False sample_world)) =
       [IssuerCreateAndStoreCredentialDef 1 ''did:x''
          ''{ver;id;name;version;attrNames;seqNo;}'' ''default'' ''CL2''
          ''{support_revocation;}'']"
proof -
  have str: "str_int 15 = ''15''"
    by (simp add: str_eval)
  have items: "schema_items sample_schema =
     [(''ver'', JStr ''1.0''), (''id'', JStr ''did:x:2:prefs:1.0''),
      (''name'', JStr ''prefs''), (''version'', JStr ''1.0''),
      (''attrNames'', JArr [JStr ''name'', JStr ''age'']), (''seqNo'', JInt 15)]"
    by code_simp
  have given: "Some ''CL'' = Some ''CL'' \<and> ''CL'' \<noteq> []
             \<or> (Some ''CL'' = None \<or> Some ''CL'' = Some []) \<and> ''CL'' = DEFAULT_SIGNATURE_TYPE sample_deps"
       "Some ''tag1'' = Some ''tag1'' \<and> ''tag1'' \<noteq> []
             \<or> (Some ''tag1'' = None \<or> Some ''tag1'' = Some [])
                 \<and> ''tag1'' = DEFAULT_CRED_DEF_TAG sample_deps"
       "Some ''CL2'' = Some ''CL2'' \<and> ''CL2'' \<noteq> []
             \<or> (Some ''CL2'' = None \<or> Some ''CL2'' = Some []) \<and> ''CL2'' = DEFAULT_SIGNATURE_TYPE sample_deps"
    by simp_all
  have omitted: "None = Some ''CL'' \<and> ''CL'' \<noteq> []
             \<or> (None = None \<or> None = Some []) \<and> ''CL'' = DEFAULT_SIGNATURE_TYPE sample_deps"
       "None = Some ''default'' \<and> ''default'' \<noteq> []
             \<or> (None = None \<or> None = Some []) \<and> ''default'' = DEFAULT_CRED_DEF_TAG sample_deps"
    by (simp_all add: sample_deps_def)
  note both = identifier_formats_and_defaults [OF given(1) given(2),
      where origin_did = "''did:x''" and name = "''name''" and version = "''1.0''"
      and sch = sample_schema and eng = sample_engine and self = sample_issuer
      and support_revocation = False and w = sample_world]
  note sig_only = identifier_formats_and_defaults [OF given(3) omitted(2),
      where origin_did = "''did:x''" and name = "''name''" and version = "''1.0''"
      and sch = sample_schema and eng = sample_engine and self = sample_issuer
      and support_revocation = False and w = sample_world]
  note tag_only = identifier_formats_and_defaults [OF omitted(1) given(2),
      where origin_did = "''did:x''" and name = "''name''" and version = "''1.0''"
      and sch = sample_schema and eng = sample_engine and self = sample_issuer
      and support_revocation = False and w = sample_world]
  note neither = identifier_formats_and_defaults [OF omitted(1) omitted(2),
      where origin_did = "''did:x''" and name = "''name''" and version = "''1.0''"
      and sch = sample_schema and eng = sample_engine and self = sample_issuer
      and support_revocation = False and w = sample_world]
  have sq: "seqNo sample_schema = Some (PInt 15)"
    by (simp add: sample_schema_def)
  from both have a: "make_schema_id ''did:x'' ''name'' ''1.0'' = ''did:x:2:name:1.0''"
    by simp
  from both have b: "make_credential_definition_id sample_deps ''did:x'' sample_schema
                       (Some ''CL'') (Some ''tag1'') = Inr ''did:x:3:CL:15:tag1''"
    by (simp add: sq str)
  from sig_only have c: "make_credential_definition_id sample_deps ''did:x'' sample_schema
                       (Some ''CL2'') None = Inr ''did:x:3:CL2:15:default''"
    by (simp add: sq str)
  from tag_only have e: "make_credential_definition_id sample_deps ''did:x'' sample_schema
                       None (Some ''tag1'') = Inr ''did:x:3:CL:15:tag1''"
    by (simp add: sq str)
  from neither have f: "make_credential_definition_id sample_deps ''did:x'' sample_schema
                       None None = Inr ''did:x:3:CL:15:default''"
    by (simp add: sq str)
  from sig_only have g: "calls (snd (create_and_store_credential_definition sample_deps
                   sample_engine sample_issuer ''did:x'' sample_schema (Some ''CL2'') None False
                   sample_world)) =
       [IssuerCreateAndStoreCredentialDef 1 ''did:x''
          ''{ver;id;name;version;attrNames;seqNo;}'' ''default'' ''CL2''
          ''{support_revocation;}'']"
    by (simp add: items sample_deps_def sample_world_def sample_issuer_def sample_dumps_def)
  from a b c e f g show ?thesis
    by blast
qed

theorem empty_signature_type_counterexample:
  "make_credential_definition_id sample_deps ''did:x'' sample_schema (Some []) (Some ''tag1'')
     = Inr ''did:x:3:CL:15:tag1''
   \<and> make_credential_definition_id sample_deps ''did:x'' sample_schema (Some []) (Some ''tag1'')
     \<noteq> Inr (''did:x'' @ '':3:'' @ [] @ '':'' @ ''15'' @ '':'' @ ''tag1'')"
proof -
  have str: "str_int 15 = ''15''"
    by (simp add: str_eval)
  show ?thesis
    by (simp add: make_credential_definition_id_def sample_deps_def sample_schema_def py_or_def str)
qed

text \<open>
  Claim C8. When the credential values hold a value for every attribute of the schema,
  whatever other keys they hold, the loop builds the encoded values, their keys are
  exactly the attributes of the schema, each one once, and these are the values the
  issuance primitive receives. The outcome is the one for the credential values restricted
  to the schema's attributes, and it is the credential whenever the engine issues one that
  parses.
\<close>

theorem create_credential_drops_extra_values:
  assumes "\<forall>a\<in>set (attrNames sch). credential_values a \<noteq> None"
  shows "\<exists>ev. encode_attributes d credential_values (attrNames sch) [] = Inr ev
           \<and> set (map fst ev) = set (attrNames sch) \<and> distinct (map fst ev)
           \<and> calls (snd (create_credential d eng self sch offer request credential_values
                            rr th w)) =
               calls w @
                 [IssuerCreateCredential (wallet_handle self) (json_dumps d offer)
                    (json_dumps d request) (json_dumps d (JObj ev)) rr th]
           \<and> create_credential d eng self sch offer request credential_values rr th w =
               create_credential d eng self sch offer request
                 (credential_values |` set (attrNames sch)) rr th w
           \<and> (\<forall>cj rid delta s' doc.
                 issuer_create_credential eng (wallet_handle self) (json_dumps d offer)
                   (json_dumps d request) (json_dumps d (JObj ev)) rr th (engine_state w) =
                 (Inr (cj, rid, delta), s') \<and> json_loads d cj = Inr doc \<longrightarrow>
                 fst (create_credential d eng self sch offer request credential_values
                        rr th w) = Inr (doc, rid))"
proof -
  from encode_attributes_present [OF assms]
  obtain ev where ev: "encode_attributes d credential_values (attrNames sch) [] = Inr ev"
    by blast
  have keys: "set (map fst ev) = set (attrNames sch)"
    using encode_attributes_keys [OF ev] by simp
  have dist: "distinct (map fst ev)"
    using encode_attributes_distinct [OF ev] by simp
  have restr: "create_credential d eng self sch offer request credential_values rr th w =
               create_credential d eng self sch offer request
                 (credential_values |` set (attrNames sch)) rr th w"
    by (simp add: create_credential_def encode_attributes_restrict)
  have ok: "\<forall>cj rid delta s' doc.
                 issuer_create_credential eng (wallet_handle self) (json_dumps d offer)
                   (json_dumps d request) (json_dumps d (JObj ev)) rr th (engine_state w) =
                 (Inr (cj, rid, delta), s') \<and> json_loads d cj = Inr doc \<longrightarrow>
                 fst (create_credential d eng self sch offer request credential_values
                        rr th w) = Inr (doc, rid)"
    by (simp add: create_credential_def ev invoke_def Let_def)
  from ev keys dist create_credential_calls [OF ev] restr ok show ?thesis
    by blast
qed

theorem create_credential_drops_extra_values_witness:
  "attrNames sample_schema = [''name'', ''age'']
   \<and> sample_values ''name'' = Some (PStr ''Alice'') \<and> sample_values ''age'' = Some (PInt 30)
   \<and> sample_values ''nickname'' \<noteq> None \<and> ''nickname'' \<notin> set (attrNames sample_schema)
   \<and> calls (snd (create_credential sample_deps sample_engine sample_issuer sample_schema
                   JNull JNull sample_values None None sample_world)) =
       [IssuerCreateCredential 1 ''_'' ''_'' ''{name;age;}'' None None]
   \<and> fst (create_credential sample_deps sample_engine sample_issuer sample_schema
                   JNull JNull sample_values None None sample_world) =
       Inr (JStr ''credential'', Some ''7'')"
proof -
  have present: "\<forall>a\<in>set (attrNames sample_schema). sample_values a \<noteq> None"
    by (simp add: sample_schema_def sample_values_def)
  have given: "attrNames sample_schema = [''name'', ''age'']
   \<and> sample_values ''name'' = Some (PStr ''Alice'') \<and> sample_values ''age'' = Some (PInt 30)"
    by (simp add: sample_schema_def sample_values_def)
  have extra: "sample_values ''nickname'' \<noteq> None \<and> ''nickname'' \<notin> set (attrNames sample_schema)"
    by (simp add: sample_schema_def sample_values_def)
  have ev: "encode_attributes sample_deps sample_values (attrNames sample_schema) [] =
     Inr [(''name'', JObj [(''raw'', JStr ''Alice''), (''encoded'', JStr ''Alice'')]),
          (''age'', JObj [(''raw'', JStr ''30''), (''encoded'', JStr ''30'')])]"
    by code_simp
  from create_credential_drops_extra_values [OF present, where d = sample_deps and eng = sample_engine and self = sample_issuer
           and offer = JNull and request = JNull and rr = None and th = None
           and w = sample_world]
  obtain ev' where
    ev': "encode_attributes sample_deps sample_values (attrNames sample_schema) [] = Inr ev'"
    and cs: "calls (snd (create_credential sample_deps sample_engine sample_issuer sample_schema
                   JNull JNull sample_values None None sample_world)) =
               calls sample_world @
                 [IssuerCreateCredential (wallet_handle sample_issuer) (json_dumps sample_deps JNull)
                    (json_dumps sample_deps JNull) (json_dumps sample_deps (JObj ev')) None None]"
    and ok: "\<forall>cj rid delta s' doc.
                 issuer_create_credential sample_engine (wallet_handle sample_issuer)
                   (json_dumps sample_deps JNull) (json_dumps sample_deps JNull)
                   (json_dumps sample_deps (JObj ev')) None None (engine_state sample_world) =
                 (Inr (cj, rid, delta), s') \<and> json_loads sample_deps cj = Inr doc \<longrightarrow>
                 fst (create_credential sample_deps sample_engine sample_issuer sample_schema
                        JNull JNull sample_values None None sample_world) = Inr (doc, rid)"
    by blast
  from ev ev' have eq: "ev' = [(''name'', JObj [(''raw'', JStr ''Alice''), (''encoded'', JStr ''Alice'')]),
          (''age'', JObj [(''raw'', JStr ''30''), (''encoded'', JStr ''30'')])]"
    by simp
  have c: "calls (snd (create_credential sample_deps sample_engine sample_issuer sample_schema
                   JNull JNull sample_values None None sample_world)) =
       [IssuerCreateCredential 1 ''_'' ''_'' ''{name;age;}'' None None]"
    unfolding cs eq
    by (simp add: sample_deps_def sample_world_def sample_issuer_def sample_dumps_def)
  have "issuer_create_credential sample_engine (wallet_handle sample_issuer)
                   (json_dumps sample_deps JNull) (json_dumps sample_deps JNull)
                   (json_dumps sample_deps (JObj ev')) None None (engine_state sample_world) =
                 (Inr (''credential'', Some ''7'', Some ''delta''), Suc 0)
        \<and> json_loads sample_deps ''credential'' = Inr (JStr ''credential'')"
    by (simp add: sample_engine_def sample_deps_def sample_world_def)
  with ok have f: "fst (create_credential sample_deps sample_engine sample_issuer sample_schema
                        JNull JNull sample_values None None sample_world) =
                   Inr (JStr ''credential'', Some ''7'')"
    by blast
  from given extra c f show ?thesis
    by blast
qed

text \<open>
  Claim C9. \<open>create_and_store_revocation_registry\<close> opens the tails writer first. When
  opening fails, the operation ends with that failure and the only call made is the
  opening of the writer; otherwise at most one call follows, to the engine. A registry
  identifier is returned only when the writer was opened and the engine's
  registry-creation primitive then succeeded with that identifier.
\<close>

theorem revocation_registry_writer_first:
  fixes d :: deps and tails_base_path :: string
  shows "(\<forall>code s1.
            open_writer eng ''default''
              (json_dumps d (JObj [(''base_dir'', JStr tails_base_path), (''uri_pattern'', JStr [])]))
              (engine_state w) = (Inl code, s1) \<longrightarrow>
            create_and_store_revocation_registry d eng self origin_did cred_def_id revoc_def_type
              tag max_cred_num tails_base_path issuance_type w =
            (Inl (IndyError code),
             w\<lparr>engine_state := s1,
               calls := calls w @
                 [BlobStorageOpenWriter ''default''
                    (json_dumps d (JObj [(''base_dir'', JStr tails_base_path),
                                         (''uri_pattern'', JStr [])]))]\<rparr>))
       \<and> (\<exists>rest.
            calls (snd (create_and_store_revocation_registry d eng self origin_did cred_def_id
                          revoc_def_type tag max_cred_num tails_base_path issuance_type w)) =
              calls w @
                BlobStorageOpenWriter ''default''
                  (json_dumps d (JObj [(''base_dir'', JStr tails_base_path),
                                       (''uri_pattern'', JStr [])])) # rest
            \<and> ((rest = [] \<and> (\<exists>code s1.
                    open_writer eng ''default''
                      (json_dumps d (JObj [(''base_dir'', JStr tails_base_path),
                                           (''uri_pattern'', JStr [])]))
                      (engine_state w) = (Inl code, s1)))
               \<or> (\<exists>tails_writer s1.
                    open_writer eng ''default''
                      (json_dumps d (JObj [(''base_dir'', JStr tails_base_path),
                                           (''uri_pattern'', JStr [])]))
                      (engine_state w) = (Inr tails_writer, s1)
                    \<and> rest =
                        [IssuerCreateAndStoreRevocReg (wallet_handle self) origin_did
                           revoc_def_type tag cred_def_id
                           (json_dumps d
                              (JObj [(''max_cred_num'', JInt max_cred_num),
                                     (''issuance_type'',
                                      JStr (py_or issuance_type (DEFAULT_ISSUANCE_TYPE d)))]))
                           tails_writer])))
       \<and> (\<forall>rid def_json entry_json.
            fst (create_and_store_revocation_registry d eng self origin_did cred_def_id
                   revoc_def_type tag max_cred_num tails_base_path issuance_type w) =
              Inr (rid, def_json, entry_json) \<longrightarrow>
            (\<exists>tails_writer s1 s2 config.
               open_writer eng ''default''
                 (json_dumps d (JObj [(''base_dir'', JStr tails_base_path),
                                      (''uri_pattern'', JStr [])]))
                 (engine_state w) = (Inr tails_writer, s1)
               \<and> issuer_create_and_store_revoc_reg eng (wallet_handle self) origin_did
                   revoc_def_type tag cred_def_id config tails_writer s1 =
                   (Inr (rid, def_json, entry_json), s2)))"
proof -
  let ?cfg = "json_dumps d (JObj [(''base_dir'', JStr tails_base_path), (''uri_pattern'', JStr [])])"
  obtain r s1 where r: "open_writer eng ''default'' ?cfg (engine_state w) = (r, s1)"
    by (cases "open_writer eng ''default'' ?cfg (engine_state w)")
  show ?thesis
  proof (cases r)
    case (Inl code)
    with r show ?thesis
      by (simp add: create_and_store_revocation_registry_def invoke_def Let_def)
  next
    case (Inr tw)
    let ?config = "json_dumps d
                        (JObj [(''max_cred_num'', JInt max_cred_num),
                               (''issuance_type'',
                                JStr (py_or issuance_type (DEFAULT_ISSUANCE_TYPE d)))])"
    obtain r2 s2 where r2: "issuer_create_and_store_revoc_reg eng (wallet_handle self) origin_did
                   revoc_def_type tag cred_def_id ?config tw s1 = (r2, s2)"
      by (cases "issuer_create_and_store_revoc_reg eng (wallet_handle self) origin_did
                   revoc_def_type tag cred_def_id ?config tw s1")
    from r Inr r2 show ?thesis
      by (cases r2)
         (auto simp: create_and_store_revocation_registry_def invoke_def Let_def
            IndyErrorHandler_def)
  qed
qed

theorem revocation_registry_writer_first_witness:
  "create_and_store_revocation_registry sample_deps (failing_engine (OtherErrorCode 114))
     sample_issuer ''did:x'' ''did:x:3:CL:15:tag1'' ''CL_ACCUM'' ''tag'' 100 ''/tmp/tails'' None
     sample_world =
   (Inl (IndyError (OtherErrorCode 114)),
    \<lparr>engine_state = Suc 0,
     calls = [BlobStorageOpenWriter ''default'' ''{base_dir;uri_pattern;}''],
     logged = []\<rparr>)
   \<and> create_and_store_revocation_registry sample_deps sample_engine
     sample_issuer ''did:x'' ''did:x:3:CL:15:tag1'' ''CL_ACCUM'' ''tag'' 100 ''/tmp/tails'' None
     sample_world =
   (Inr (''rev-reg-id'', ''rev-reg-def'', ''rev-reg-entry''),
    \<lparr>engine_state = Suc (Suc 0),
     calls = [BlobStorageOpenWriter ''default'' ''{base_dir;uri_pattern;}'',
              IssuerCreateAndStoreRevocReg 1 ''did:x'' ''CL_ACCUM'' ''tag'' ''did:x:3:CL:15:tag1''
                ''{max_cred_num;issuance_type;}'' 5],
     logged = []\<rparr>)"
proof -
  have fails: "create_and_store_revocation_registry sample_deps (failing_engine (OtherErrorCode 114))
     sample_issuer ''did:x'' ''did:x:3:CL:15:tag1'' ''CL_ACCUM'' ''tag'' 100 ''/tmp/tails'' None
     sample_world =
   (Inl (IndyError (OtherErrorCode 114)),
    \<lparr>engine_state = Suc 0,
     calls = [BlobStorageOpenWriter ''default'' ''{base_dir;uri_pattern;}''],
     logged = []\<rparr>)"
    using revocation_registry_writer_first [where d = sample_deps and eng = "failing_engine (OtherErrorCode 114)"
      and self = sample_issuer and origin_did = "''did:x''"
      and cred_def_id = "''did:x:3:CL:15:tag1''" and revoc_def_type = "''CL_ACCUM''"
      and tag = "''tag''" and max_cred_num = 100 and tails_base_path = "''/tmp/tails''"
      and issuance_type = None and w = sample_world]
    by (simp add: sample_deps_def sample_world_def failing_engine_def sample_dumps_def)
  have succeeds: "create_and_store_revocation_registry sample_deps sample_engine
     sample_issuer ''did:x'' ''did:x:3:CL:15:tag1'' ''CL_ACCUM'' ''tag'' 100 ''/tmp/tails'' None
     sample_world =
   (Inr (''rev-reg-id'', ''rev-reg-def'', ''rev-reg-entry''),
    \<lparr>engine_state = Suc (Suc 0),
     calls = [BlobStorageOpenWriter ''default'' ''{base_dir;uri_pattern;}'',
              IssuerCreateAndStoreRevocReg 1 ''did:x'' ''CL_ACCUM'' ''tag'' ''did:x:3:CL:15:tag1''
                ''{max_cred_num;issuance_type;}'' 5],
     logged = []\<rparr>)"
    by (simp add: create_and_store_revocation_registry_def IndyErrorHandler_def invoke_def
        sample_deps_def sample_world_def sample_engine_def sample_dumps_def sample_issuer_def
        py_or_def)
  from fails succeeds show ?thesis
    by (rule conjI)
qed

text \<open>
  Claim C10. When the issuance primitive returns a credential, a revocation identifier
  and a registry delta, and the credential parses, \<open>create_credential\<close> returns the
  parsed credential with the revocation identifier. The delta occurs neither in the
  result nor in the world after the call, which differs from the world before by the
  engine's own state and the record of the one call.
\<close>

theorem create_credential_discards_delta:
  assumes "encode_attributes d credential_values (attrNames sch) [] = Inr ev"
      and "issuer_create_credential eng (wallet_handle self) (json_dumps d offer)
             (json_dumps d request) (json_dumps d (JObj ev)) rr th (engine_state w) =
           (Inr (credential_json, credential_revocation_id, revoc_reg_delta_json), s')"
      and "json_loads d credential_json = Inr credential"
  shows "create_credential d eng self sch offer request credential_values rr th w =
           (Inr (credential, credential_revocation_id),
            w\<lparr>engine_state := s',
              calls := calls w @
                [IssuerCreateCredential (wallet_handle self) (json_dumps d offer)
                   (json_dumps d request) (json_dumps d (JObj ev)) rr th]\<rparr>)"
  by (simp add: create_credential_def assms(1) assms(3) invoke_def assms(2))

theorem create_credential_discards_delta_witness:
  "create_credential sample_deps sample_engine sample_issuer sample_schema JNull JNull
     sample_values (Some ''rev-reg-id'') (Some 3) sample_world =
   (Inr (JStr ''credential'', Some ''7''),
    \<lparr>engine_state = Suc 0,
     calls = [IssuerCreateCredential 1 ''_'' ''_'' ''{name;age;}'' (Some ''rev-reg-id'') (Some 3)],
     logged = []\<rparr>)"
proof -
  have ev: "encode_attributes sample_deps sample_values (attrNames sample_schema) [] =
     Inr [(''name'', JObj [(''raw'', JStr ''Alice''), (''encoded'', JStr ''Alice'')]),
          (''age'', JObj [(''raw'', JStr ''30''), (''encoded'', JStr ''30'')])]"
    by code_simp
  have eng: "issuer_create_credential sample_engine
          (wallet_handle sample_issuer) (json_dumps sample_deps JNull) (json_dumps sample_deps JNull)
          (json_dumps sample_deps
             (JObj [(''name'', JObj [(''raw'', JStr ''Alice''), (''encoded'', JStr ''Alice'')]),
                    (''age'', JObj [(''raw'', JStr ''30''), (''encoded'', JStr ''30'')])]))
          (Some ''rev-reg-id'') (Some 3) (engine_state sample_world) =
        (Inr (''credential'', Some ''7'', Some ''delta''), Suc 0)"
    by (simp add: sample_engine_def sample_world_def)
  have loads: "json_loads sample_deps ''credential'' = Inr (JStr ''credential'')"
    by (simp add: sample_deps_def)
  show ?thesis
    using create_credential_discards_delta [OF ev eng loads]
    by (simp add: sample_deps_def sample_world_def sample_issuer_def sample_dumps_def)
qed

end
